theory Spec2Isabelle
  imports Complex_Main
begin

section \<open>The streaming anomaly detector of Anomaly.py\<close>

text \<open>
  The detector of \<^verbatim>\<open>Anomaly.py\<close> (class \<^verbatim>\<open>AnomalyDetector\<close>) keeps a bounded
  window of the most recent samples in a \<^verbatim>\<open>collections.deque\<close>, two scalars of an
  exponentially weighted moving average, and three configuration values.

  Numbers: samples, \<^verbatim>\<open>alpha\<close>, \<^verbatim>\<open>z_thresh\<close> and the two EWMA scalars are Python
  floats. They are modelled as \<open>real\<close>, so every formula below is the formula of the
  source in exact arithmetic; rounding and infinities of IEEE doubles are not part of
  the model. The one not-a-number the source can produce from finite samples, the
  statistics of an empty window, is modelled: \<open>None\<close> stands for NaN. The one
  place where Python turns an overflow into an exception, the power \<^verbatim>\<open>** 2\<close> of
  \<^verbatim>\<open>update_ewma\<close>, is modelled by the functions \<open>update_ewma_checked\<close> and
  \<open>detect_anomaly_checked\<close> below; \<open>update_ewma\<close> and \<open>detect_anomaly\<close> give
  the state and the flag of a call that returns.
  \<^verbatim>\<open>window_size\<close> is a Python integer, modelled as \<open>int\<close>.
\<close>

subsection \<open>The bounded deque\<close>

datatype error = ValueError | OverflowError

text \<open>
  \<^verbatim>\<open>deque(maxlen=n)\<close>: an empty deque that remembers its bound. CPython converts the
  bound to a C \<^verbatim>\<open>ssize_t\<close> (64 bits): an integer outside \<open>-2\<^sup>6\<^sup>3 .. 2\<^sup>6\<^sup>3 - 1\<close> raises
  \<^verbatim>\<open>OverflowError\<close>; a negative bound inside that range then raises
  \<^verbatim>\<open>ValueError\<close>. The contents are kept oldest first.
\<close>

record deque =
  maxlen :: nat
  items :: "real list"

definition new_deque :: "int \<Rightarrow> error + deque" where
  "new_deque n =
     (if n < - (2 ^ 63) \<or> 2 ^ 63 \<le> n then Inl OverflowError
      else if n < 0 then Inl ValueError
      else Inr \<lparr>maxlen = nat n, items = []\<rparr>)"

text \<open>
  \<^verbatim>\<open>deque.append(x)\<close>: the element is added on the right; when the size then exceeds
  the bound, one element is removed on the left. With a bound of zero the deque
  therefore stays empty.
\<close>

definition append_dq :: "deque \<Rightarrow> real \<Rightarrow> deque" where
  "append_dq q x =
     (let ys = items q @ [x]
      in q\<lparr>items := (if length ys > maxlen q then tl ys else ys)\<rparr>)"

text \<open>\<^verbatim>\<open>len(q)\<close>, a Python integer.\<close>

definition len :: "deque \<Rightarrow> int" where
  "len q = int (length (items q))"

subsection \<open>The statistics of numpy\<close>

text \<open>
  \<^verbatim>\<open>np.mean\<close> is the sum divided by the count. \<^verbatim>\<open>np.std\<close> with its default
  \<^verbatim>\<open>ddof=0\<close> is the square root of the mean of the squared absolute deviations from
  the mean: the divisor is the count. On an empty sequence both return NaN (with a
  warning, not an exception).
\<close>

definition np_mean :: "real list \<Rightarrow> real option" where
  "np_mean xs = (if xs = [] then None else Some (sum_list xs / real (length xs)))"

definition np_std :: "real list \<Rightarrow> real option" where
  "np_std xs =
     (case np_mean xs of
        None \<Rightarrow> None
      | Some m \<Rightarrow> Some (sqrt (sum_list (map (\<lambda>x. \<bar>x - m\<bar> ^ 2) xs) / real (length xs))))"

text \<open>
  \<^verbatim>\<open>(value - mean) / std if std > 0 else 0\<close>. A NaN \<^verbatim>\<open>std\<close> compares false with
  zero, so the guard also covers the empty window. (\<^verbatim>\<open>mean\<close> is NaN only when
  \<^verbatim>\<open>std\<close> is.)
\<close>

definition z_score_of :: "real \<Rightarrow> real option \<Rightarrow> real option \<Rightarrow> real" where
  "z_score_of v mean std =
     (case std of
        None \<Rightarrow> 0
      | Some s \<Rightarrow>
          if s > 0 then (case mean of None \<Rightarrow> 0 | Some m \<Rightarrow> (v - m) / s) else 0)"

subsection \<open>The detector\<close>

record detector =
  window_size :: int
  alpha :: real
  z_thresh :: real
  data_window :: deque
  ewma_mean :: real
  ewma_var :: real

text \<open>
  \<^verbatim>\<open>AnomalyDetector.__init__\<close>: stores the three parameters as given, with no check of
  its own, creates the deque and zeroes the EWMA state. The only exceptions are those
  of the deque.
\<close>

definition init :: "int \<Rightarrow> real \<Rightarrow> real \<Rightarrow> error + detector" where
  "init ws a z =
     (case new_deque ws of
        Inl e \<Rightarrow> Inl e
      | Inr q \<Rightarrow>
          Inr \<lparr>window_size = ws, alpha = a, z_thresh = z, data_window = q,
               ewma_mean = 0, ewma_var = 0\<rparr>)"

text \<open>
  \<^verbatim>\<open>update_ewma\<close>: the branch is chosen by the emptiness of the window, and the
  variance is computed from the mean that the line before has just stored.
\<close>

definition update_ewma :: "detector \<Rightarrow> real \<Rightarrow> detector" where
  "update_ewma d v =
     (if len (data_window d) = 0 then d\<lparr>ewma_mean := v, ewma_var := 0\<rparr>
      else
        let d1 = d\<lparr>ewma_mean := alpha d * v + (1 - alpha d) * ewma_mean d\<rparr>
        in d1\<lparr>ewma_var := alpha d1 * (v - ewma_mean d1) ^ 2 + (1 - alpha d1) * ewma_var d1\<rparr>)"

text \<open>\<^verbatim>\<open>detect_anomaly\<close> returns the updated detector and the flag.\<close>

definition detect_anomaly :: "detector \<Rightarrow> real \<Rightarrow> detector \<times> bool" where
  "detect_anomaly d v =
     (let d1 = d\<lparr>data_window := append_dq (data_window d) v\<rparr>
      in if len (data_window d1) < window_size d1 then (d1, False)
         else
           let mean = np_mean (items (data_window d1));
               std = np_std (items (data_window d1));
               z_score = z_score_of v mean std;
               d2 = update_ewma d1 v
           in (d2, \<bar>z_score\<bar> > z_thresh d2))"

text \<open>
  The driver calls \<^verbatim>\<open>detect_anomaly\<close> once per sample, in arrival order: \<open>feed\<close> is
  the detector after the calls, \<open>outputs\<close> the flags they returned.
\<close>

fun feed :: "detector \<Rightarrow> real list \<Rightarrow> detector" where
  "feed d [] = d"
| "feed d (v # vs) = feed (fst (detect_anomaly d v)) vs"

fun outputs :: "detector \<Rightarrow> real list \<Rightarrow> bool list" where
  "outputs d [] = []"
| "outputs d (v # vs) = snd (detect_anomaly d v) # outputs (fst (detect_anomaly d v)) vs"

subsection \<open>The exception of the power\<close>

text \<open>
  The arithmetic of Python floats raises in one place of the detector: \<^verbatim>\<open>x ** 2\<close>
  raises \<^verbatim>\<open>OverflowError\<close> when \<open>x\<close> is finite and the square is beyond the range of
  a double (sums, differences and products overflow to an infinity without raising,
  and the division of the z-score is numpy's, which does not raise either).
  \<open>dbl_inf\<close> is the least magnitude that rounds to infinity.
\<close>

definition dbl_inf :: real where
  "dbl_inf = 2 ^ 1024 - 2 ^ 970"

definition py_pow2 :: "real \<Rightarrow> error + real" where
  "py_pow2 x = (if \<bar>x\<bar> < dbl_inf \<and> dbl_inf \<le> x ^ 2 then Inl OverflowError else Inr (x ^ 2))"

text \<open>
  \<^verbatim>\<open>update_ewma\<close> with that exception: when the power raises, the mean has already
  been stored and the variance has not.
\<close>

definition update_ewma_checked :: "detector \<Rightarrow> real \<Rightarrow> detector \<times> error option" where
  "update_ewma_checked d v =
     (if len (data_window d) = 0 then (d\<lparr>ewma_mean := v, ewma_var := 0\<rparr>, None)
      else
        let d1 = d\<lparr>ewma_mean := alpha d * v + (1 - alpha d) * ewma_mean d\<rparr>
        in case py_pow2 (v - ewma_mean d1) of
             Inl e \<Rightarrow> (d1, Some e)
           | Inr p \<Rightarrow> (d1\<lparr>ewma_var := alpha d1 * p + (1 - alpha d1) * ewma_var d1\<rparr>, None))"

text \<open>
  \<^verbatim>\<open>detect_anomaly\<close> with that exception: the detector as the call leaves it, and
  either the exception that escapes or the flag returned.
\<close>

definition detect_anomaly_checked :: "detector \<Rightarrow> real \<Rightarrow> detector \<times> (error + bool)" where
  "detect_anomaly_checked d v =
     (let d1 = d\<lparr>data_window := append_dq (data_window d) v\<rparr>
      in if len (data_window d1) < window_size d1 then (d1, Inr False)
         else
           let mean = np_mean (items (data_window d1));
               std = np_std (items (data_window d1));
               z_score = z_score_of v mean std
           in case update_ewma_checked d1 v of
                (d2, Some e) \<Rightarrow> (d2, Inl e)
              | (d2, None) \<Rightarrow> (d2, Inr (\<bar>z_score\<bar> > z_thresh d2)))"

section \<open>Auxiliary facts\<close>

lemma init_Inr:
  "init ws a z = Inr d \<Longrightarrow>
     0 \<le> ws \<and>
     d = \<lparr>window_size = ws, alpha = a, z_thresh = z,
          data_window = \<lparr>maxlen = nat ws, items = []\<rparr>, ewma_mean = 0, ewma_var = 0\<rparr>"
  by (simp add: init_def new_deque_def split: if_splits)

lemma maxlen_append_dq [simp]: "maxlen (append_dq q x) = maxlen q"
  by (simp add: append_dq_def Let_def)

lemma items_append_dq:
  assumes "length (items q) \<le> maxlen q"
  shows "items (append_dq q x) = drop (length (items q) + 1 - maxlen q) (items q @ [x])"
proof (cases "length (items q) = maxlen q")
  case True
  then have n: "length (items q) + 1 - maxlen q = Suc 0"
    by simp
  have "items (append_dq q x) = tl (items q @ [x])"
    using True by (simp add: append_dq_def Let_def)
  also have "\<dots> = drop (Suc 0) (items q @ [x])"
    by (simp only: drop_Suc drop_0)
  finally show ?thesis
    by (simp only: n)
next
  case False
  with assms have "length (items q) + 1 - maxlen q = 0"
    by simp
  then show ?thesis
    using False assms by (simp add: append_dq_def Let_def)
qed

lemma detect_anomaly_config [simp]:
  "window_size (fst (detect_anomaly d v)) = window_size d"
  "alpha (fst (detect_anomaly d v)) = alpha d"
  "z_thresh (fst (detect_anomaly d v)) = z_thresh d"
  "data_window (fst (detect_anomaly d v)) = append_dq (data_window d) v"
  by (simp_all add: detect_anomaly_def update_ewma_def Let_def)

lemma feed_snoc: "feed d (vs @ [v]) = fst (detect_anomaly (feed d vs) v)"
  by (induction vs arbitrary: d) simp_all

lemma feed_config [simp]:
  "window_size (feed d vs) = window_size d"
  "alpha (feed d vs) = alpha d"
  "z_thresh (feed d vs) = z_thresh d"
  "maxlen (data_window (feed d vs)) = maxlen (data_window d)"
  by (induction vs arbitrary: d) simp_all

text \<open>
  Starting from an empty window, the window after feeding \<open>vs\<close> holds the last
  \<open>maxlen\<close> elements of \<open>vs\<close>, oldest first.
\<close>

lemma feed_items:
  "items (data_window d) = [] \<Longrightarrow>
     items (data_window (feed d vs)) = drop (length vs - maxlen (data_window d)) vs"
proof (induction vs rule: rev_induct)
  case Nil
  then show ?case by simp
next
  case (snoc v vs)
  let ?q = "data_window (feed d vs)"
  let ?m = "maxlen (data_window d)"
  have q: "items ?q = drop (length vs - ?m) vs"
    using snoc by simp
  then have le: "length (items ?q) \<le> maxlen ?q"
    by simp
  have "items (data_window (feed d (vs @ [v]))) = items (append_dq ?q v)"
    by (simp add: feed_snoc)
  also have "\<dots> = drop (length (items ?q) + 1 - ?m) (items ?q @ [v])"
    using items_append_dq [OF le] by simp
  also have "\<dots> = drop (length (vs @ [v]) - ?m) (vs @ [v])"
    by (cases "length vs < ?m") (simp_all add: q Suc_diff_le)
  finally show ?case .
qed

lemma init_fields:
  assumes "init N a z = Inr d0"
  shows "window_size d0 = N" and "alpha d0 = a" and "z_thresh d0 = z"
    and "data_window d0 = \<lparr>maxlen = nat N, items = []\<rparr>"
    and "ewma_mean d0 = 0" and "ewma_var d0 = 0" and "0 \<le> N"
  using init_Inr [OF assms] by simp_all

lemma feed_init_items:
  assumes "init N a z = Inr d0"
  shows "items (data_window (feed d0 vs)) = drop (length vs - nat N) vs"
  using feed_items [of d0 vs] by (simp add: init_fields [OF assms])

lemma detect_anomaly_warming:
  "len (append_dq (data_window d) v) < window_size d \<Longrightarrow>
     detect_anomaly d v = (d\<lparr>data_window := append_dq (data_window d) v\<rparr>, False)"
  by (simp add: detect_anomaly_def Let_def)

text \<open>The flag of call number \<open>k\<close> (from zero) is the one returned in the state the
  first \<open>k\<close> calls have left.\<close>

lemma outputs_nth:
  "k < length vs \<Longrightarrow>
     outputs d vs ! k = snd (detect_anomaly (feed d (take k vs)) (vs ! k))"
proof (induction vs arbitrary: d k)
  case Nil
  then show ?case by simp
next
  case (Cons x xs)
  then show ?case by (cases k) simp_all
qed

text \<open>While fewer than \<open>N\<close> samples have arrived, only the window has changed.\<close>

lemma feed_warming:
  assumes "init N a z = Inr d0" and "int (length vs) < N"
  shows "feed d0 vs = d0\<lparr>data_window := \<lparr>maxlen = nat N, items = vs\<rparr>\<rparr>"
  using assms(2)
proof (induction vs rule: rev_induct)
  case Nil
  then show ?case by (simp add: init_fields [OF assms(1)])
next
  case (snoc v vs)
  then have IH: "feed d0 vs = d0\<lparr>data_window := \<lparr>maxlen = nat N, items = vs\<rparr>\<rparr>"
    by simp
  have "\<not> nat N < Suc (length vs)"
    using snoc.prems by simp
  then have ap:
    "append_dq \<lparr>maxlen = nat N, items = vs\<rparr> v = \<lparr>maxlen = nat N, items = vs @ [v]\<rparr>"
    by (simp add: append_dq_def Let_def)
  have "len (append_dq (data_window (feed d0 vs)) v) < window_size (feed d0 vs)"
    using snoc.prems by (simp add: IH ap len_def init_fields [OF assms(1)])
  from detect_anomaly_warming [OF this] show ?case
    by (simp add: feed_snoc IH ap)
qed

lemma np_mean_replicate: "0 < n \<Longrightarrow> np_mean (replicate n v) = Some v"
  by (simp add: np_mean_def sum_list_replicate)

lemma np_std_replicate: "0 < n \<Longrightarrow> np_std (replicate n v) = Some 0"
proof -
  assume n: "0 < n"
  have "map (\<lambda>x. \<bar>x - v\<bar> ^ 2) (replicate n v) = replicate n 0"
    by simp
  then show ?thesis
    using n by (simp add: np_std_def np_mean_replicate sum_list_replicate)
qed




section \<open>The claims\<close>

subsection \<open>C1: the order of an Active call\<close>




subsection \<open>C2: warm-up suppression\<close>

text \<open>
  C2. For a freshly constructed detector of window size \<open>N \<ge> 1\<close> and any input
  sequence, each of the first \<open>N - 1\<close> calls (call number \<open>k\<close>, counted from zero, with
  \<open>k < N - 1\<close>) returns false whatever the values are, and leaves \<open>ewma_mean\<close> and
  \<open>ewma_var\<close> as they were before the call, which is as the constructor set them.
\<close>

theorem warm_up_suppression:
  assumes "init N a z = Inr d0" and "1 \<le> N" and "k < length vs" and "int k < N - 1"
  shows "outputs d0 vs ! k = False \<and>
         ewma_mean (feed d0 (take (Suc k) vs)) = ewma_mean (feed d0 (take k vs)) \<and>
         ewma_var (feed d0 (take (Suc k) vs)) = ewma_var (feed d0 (take k vs)) \<and>
         ewma_mean (feed d0 (take (Suc k) vs)) = ewma_mean d0 \<and>
         ewma_var (feed d0 (take (Suc k) vs)) = ewma_var d0"
proof -
  have l1: "int (length (take k vs)) < N" and l2: "int (length (take (Suc k) vs)) < N"
    using assms(3,4) by simp_all
  note f1 = feed_warming [OF assms(1) l1] and f2 = feed_warming [OF assms(1) l2]
  have "\<not> nat N < Suc k"
    using assms(4) by linarith
  then have "len (append_dq (data_window (feed d0 (take k vs))) (vs ! k)) <
          window_size (feed d0 (take k vs))"
    using assms(3,4)
    by (simp add: f1 append_dq_def Let_def len_def init_fields [OF assms(1)] min_absorb2)
  from detect_anomaly_warming [OF this] have "outputs d0 vs ! k = False"
    by (simp add: outputs_nth [OF assms(3)])
  then show ?thesis
    by (simp add: f1 f2)
qed

theorem warm_up_suppression_witness:
  "init 3 (1 / 2) 2 =
     Inr \<lparr>window_size = 3, alpha = 1 / 2, z_thresh = 2,
          data_window = \<lparr>maxlen = 3, items = []\<rparr>, ewma_mean = 0, ewma_var = 0\<rparr> \<and>
   (1::int) \<le> 3 \<and> (1::nat) < length [1000, - 1000, 5 :: real] \<and> int 1 < 3 - 1 \<and>
   outputs \<lparr>window_size = 3, alpha = 1 / 2, z_thresh = 2,
            data_window = \<lparr>maxlen = 3, items = []\<rparr>, ewma_mean = 0, ewma_var = 0\<rparr>
           [1000, - 1000, 5] ! 1 = False \<and>
   ewma_mean (feed \<lparr>window_size = 3, alpha = 1 / 2, z_thresh = 2,
                    data_window = \<lparr>maxlen = 3, items = []\<rparr>, ewma_mean = 0, ewma_var = 0\<rparr>
                   (take (Suc 1) [1000, - 1000, 5])) = 0 \<and>
   ewma_var (feed \<lparr>window_size = 3, alpha = 1 / 2, z_thresh = 2,
                   data_window = \<lparr>maxlen = 3, items = []\<rparr>, ewma_mean = 0, ewma_var = 0\<rparr>
                  (take (Suc 1) [1000, - 1000, 5])) = 0"
proof -
  let ?d = "\<lparr>window_size = 3, alpha = 1 / 2, z_thresh = 2,
      data_window = \<lparr>maxlen = 3, items = []\<rparr>, ewma_mean = 0, ewma_var = 0\<rparr>"
  have h: "init 3 (1 / 2) 2 = Inr ?d"
    by (simp add: init_def new_deque_def)
  have k: "(1::nat) < length [1000, - 1000, 5 :: real]" and n: "int 1 < 3 - 1"
    by simp_all
  show ?thesis
    using h warm_up_suppression [OF h _ k n] by simp
qed

subsection \<open>C3: the window is the most recent samples, oldest first\<close>

text \<open>
  C3. For a freshly constructed detector of window size \<open>N \<ge> 1\<close>, after any sequence
  \<open>vs\<close> of calls the window holds exactly the last \<open>min (length vs) N\<close> values of
  \<open>vs\<close> in arrival order. Its length never exceeds \<open>N\<close>, is \<open>N\<close> once at least \<open>N\<close>
  calls have been made, and after \<open>N + 1\<close> distinct values \<open>v1 .. v(N+1)\<close> the window
  is \<open>v2 .. v(N+1)\<close> in that order.
\<close>

theorem window_fifo:
  assumes "init N a z = Inr d0" and "1 \<le> N"
  shows "items (data_window (feed d0 vs)) = drop (length vs - nat N) vs \<and>
         len (data_window (feed d0 vs)) = min (int (length vs)) N \<and>
         len (data_window (feed d0 vs)) \<le> N \<and>
         (N \<le> int (length vs) \<longrightarrow> len (data_window (feed d0 vs)) = N) \<and>
         (int (length vs) = N + 1 \<and> distinct vs \<longrightarrow>
            items (data_window (feed d0 vs)) = tl vs)"
proof -
  have it: "items (data_window (feed d0 vs)) = drop (length vs - nat N) vs"
    by (rule feed_init_items [OF assms(1)])
  have "int (length vs) = N + 1 \<Longrightarrow> length vs - nat N = Suc 0"
    using assms(2) by linarith
  then have "int (length vs) = N + 1 \<Longrightarrow> drop (length vs - nat N) vs = tl vs"
    by (simp add: drop_Suc)
  then show ?thesis
    using assms(2) by (auto simp: it len_def)
qed

theorem window_fifo_witness:
  "init 2 (1 / 2) 3 =
     Inr \<lparr>window_size = 2, alpha = 1 / 2, z_thresh = 3,
          data_window = \<lparr>maxlen = 2, items = []\<rparr>, ewma_mean = 0, ewma_var = 0\<rparr> \<and>
   (1::int) \<le> 2 \<and> (2::int) \<le> int (length [7, 8, 9 :: real]) \<and>
   int (length [7, 8, 9 :: real]) = 2 + 1 \<and> distinct [7, 8, 9 :: real] \<and>
   items (data_window
     (feed \<lparr>window_size = 2, alpha = 1 / 2, z_thresh = 3,
            data_window = \<lparr>maxlen = 2, items = []\<rparr>, ewma_mean = 0, ewma_var = 0\<rparr>
           [7, 8, 9])) = [8, 9] \<and>
   len (data_window
     (feed \<lparr>window_size = 2, alpha = 1 / 2, z_thresh = 3,
            data_window = \<lparr>maxlen = 2, items = []\<rparr>, ewma_mean = 0, ewma_var = 0\<rparr>
           [7, 8, 9])) = 2"
proof -
  let ?d = "\<lparr>window_size = 2, alpha = 1 / 2, z_thresh = 3,
      data_window = \<lparr>maxlen = 2, items = []\<rparr>, ewma_mean = 0, ewma_var = 0\<rparr>"
  have h: "init 2 (1 / 2) 3 = Inr ?d"
    by (simp add: init_def new_deque_def)
  have n: "(1::int) \<le> 2"
    by simp
  show ?thesis
    using h window_fifo [OF h n, of "[7, 8, 9]"] by simp
qed


subsection \<open>C4: the zero-variance guard\<close>

text \<open>
  C4 asks that \<open>N\<close> identical values followed by one more are never flagged. The
  formulas of the source agree: the mean of identical values is the value, their
  standard deviation is zero (\<open>np_mean_replicate\<close>, \<open>np_std_replicate\<close>), and the
  guard \<^verbatim>\<open>if std > 0 else 0\<close> then sets the z-score to 0. The doubles of the source
  do not: the sum \<^verbatim>\<open>0.1 + 0.1 + 0.1\<close> is rounded, the mean of three times
  \<^verbatim>\<open>0.1\<close> comes out as \<^verbatim>\<open>0.10000000000000002\<close>, the standard deviation as
  \<^verbatim>\<open>1.39e-17\<close>, which is positive, and the z-score as \<^verbatim>\<open>-1.0\<close>; a detector of window
  size 3 and threshold \<^verbatim>\<open>0.5\<close> flags the value. The guard compares a rounded
  standard deviation with an exact zero. This model computes in exact arithmetic
  and cannot exhibit the rounding, so no theorem is stated for C4.
\<close>

subsection \<open>C5: cold start of the EWMA\<close>

text \<open>
  C5. On a freshly constructed detector (its window is empty), \<open>update_ewma\<close> called
  with \<open>v\<close> leaves \<open>ewma_mean = v\<close> and \<open>ewma_var = 0\<close>.
\<close>

theorem ewma_cold_start:
  assumes "init ws a z = Inr d0"
  shows "ewma_mean (update_ewma d0 v) = v \<and> ewma_var (update_ewma d0 v) = 0"
  by (simp add: update_ewma_def len_def init_fields [OF assms])

theorem ewma_cold_start_witness:
  "init 10 (3 / 10) 3 =
     Inr \<lparr>window_size = 10, alpha = 3 / 10, z_thresh = 3,
          data_window = \<lparr>maxlen = 10, items = []\<rparr>, ewma_mean = 0, ewma_var = 0\<rparr> \<and>
   ewma_mean (update_ewma \<lparr>window_size = 10, alpha = 3 / 10, z_thresh = 3,
          data_window = \<lparr>maxlen = 10, items = []\<rparr>, ewma_mean = 0, ewma_var = 0\<rparr> 7) = 7 \<and>
   ewma_var (update_ewma \<lparr>window_size = 10, alpha = 3 / 10, z_thresh = 3,
          data_window = \<lparr>maxlen = 10, items = []\<rparr>, ewma_mean = 0, ewma_var = 0\<rparr> 7) = 0"
proof -
  let ?d = "\<lparr>window_size = 10, alpha = 3 / 10, z_thresh = 3,
      data_window = \<lparr>maxlen = 10, items = []\<rparr>, ewma_mean = 0, ewma_var = 0\<rparr>"
  have h: "init 10 (3 / 10) 3 = Inr ?d"
    by (simp add: init_def new_deque_def)
  show ?thesis
    using h ewma_cold_start [OF h, of 7] by simp
qed

subsection \<open>C6: the EWMA recurrence\<close>

text \<open>
  C6 asks for the recurrence on every EWMA update after the first. The source says
  the same of itself (line 55: initialise the mean \<^emph>\<open>if this is the first value\<close>),
  but tests \<^verbatim>\<open>len(self.data_window) == 0\<close> instead. On a fresh detector of window
  size 10 with \<open>alpha = 0.3\<close>, \<open>update_ewma\<close> called with 1 and then with 2 meets
  the empty window both times: the second call, which is not the first, stores the
  mean 2 and the variance 0 again, where the recurrence from the state \<open>(1, 0)\<close>
  gives the mean \<open>0.3 * 2 + 0.7 * 1 = 1.3\<close> and the variance
  \<open>0.3 * (2 - 1.3)\<^sup>2 + 0.7 * 0 = 0.147\<close>.
\<close>

theorem ewma_second_call_reinitialises:
  "init 10 (3 / 10) 3 =
     Inr \<lparr>window_size = 10, alpha = 3 / 10, z_thresh = 3,
          data_window = \<lparr>maxlen = 10, items = []\<rparr>, ewma_mean = 0, ewma_var = 0\<rparr> \<and>
   update_ewma \<lparr>window_size = 10, alpha = 3 / 10, z_thresh = 3,
          data_window = \<lparr>maxlen = 10, items = []\<rparr>, ewma_mean = 0, ewma_var = 0\<rparr> 1 =
     \<lparr>window_size = 10, alpha = 3 / 10, z_thresh = 3,
      data_window = \<lparr>maxlen = 10, items = []\<rparr>, ewma_mean = 1, ewma_var = 0\<rparr> \<and>
   update_ewma \<lparr>window_size = 10, alpha = 3 / 10, z_thresh = 3,
          data_window = \<lparr>maxlen = 10, items = []\<rparr>, ewma_mean = 1, ewma_var = 0\<rparr> 2 =
     \<lparr>window_size = 10, alpha = 3 / 10, z_thresh = 3,
      data_window = \<lparr>maxlen = 10, items = []\<rparr>, ewma_mean = 2, ewma_var = 0\<rparr> \<and>
   (2::real) \<noteq> 3 / 10 * 2 + (1 - 3 / 10) * 1 \<and>
   (0::real) \<noteq> 3 / 10 * (2 - (3 / 10 * 2 + (1 - 3 / 10) * 1)) ^ 2 + (1 - 3 / 10) * 0"
  by (simp add: init_def new_deque_def update_ewma_def len_def power2_eq_square)

subsection \<open>C7: which errors are raised, and when\<close>

text \<open>
  C7, as stated, fails in both halves. The constructor has no validation of its own:
  a window size of zero, an \<open>alpha\<close> of 2 and a threshold of \<open>-1\<close> are accepted and
  stored as given. And a call on a validly configured detector can raise: the
  detector of window size 1, \<open>alpha = 0.5\<close> and threshold 3 fed \<open>10\<^sup>2\<^sup>0\<^sup>0\<close> stores the
  mean \<open>5 * 10\<^sup>1\<^sup>9\<^sup>9\<close> and then squares \<open>10\<^sup>2\<^sup>0\<^sup>0 - 5 * 10\<^sup>1\<^sup>9\<^sup>9\<close>, which raises
  \<^verbatim>\<open>OverflowError\<close>.
\<close>

theorem configuration_error_counterexample:
  "init 0 2 (- 1) =
     Inr \<lparr>window_size = 0, alpha = 2, z_thresh = - 1,
          data_window = \<lparr>maxlen = 0, items = []\<rparr>, ewma_mean = 0, ewma_var = 0\<rparr> \<and>
   init 1 (1 / 2) 3 =
     Inr \<lparr>window_size = 1, alpha = 1 / 2, z_thresh = 3,
          data_window = \<lparr>maxlen = 1, items = []\<rparr>, ewma_mean = 0, ewma_var = 0\<rparr> \<and>
   detect_anomaly_checked
     \<lparr>window_size = 1, alpha = 1 / 2, z_thresh = 3,
      data_window = \<lparr>maxlen = 1, items = []\<rparr>, ewma_mean = 0, ewma_var = 0\<rparr> (10 ^ 200) =
     (\<lparr>window_size = 1, alpha = 1 / 2, z_thresh = 3,
       data_window = \<lparr>maxlen = 1, items = [10 ^ 200]\<rparr>,
       ewma_mean = 5 * 10 ^ 199, ewma_var = 0\<rparr>, Inl OverflowError)"
proof (intro conjI)
  show "init 0 2 (- 1) =
     Inr \<lparr>window_size = 0, alpha = 2, z_thresh = - 1,
          data_window = \<lparr>maxlen = 0, items = []\<rparr>, ewma_mean = 0, ewma_var = 0\<rparr>"
    by (simp add: init_def new_deque_def)
  show "init 1 (1 / 2) 3 =
     Inr \<lparr>window_size = 1, alpha = 1 / 2, z_thresh = 3,
          data_window = \<lparr>maxlen = 1, items = []\<rparr>, ewma_mean = 0, ewma_var = 0\<rparr>"
    by (simp add: init_def new_deque_def)
  have m: "(10::real) ^ 200 / 2 = 5 * 10 ^ 199"
    by simp
  have "\<bar>5 * (10::real) ^ 199\<bar> < dbl_inf \<and> dbl_inf \<le> (5 * 10 ^ 199) ^ 2"
    by (simp add: dbl_inf_def)
  then have p: "py_pow2 (10 ^ 200 - 5 * 10 ^ 199) = Inl OverflowError"
    by (simp add: py_pow2_def)
  show "detect_anomaly_checked
     \<lparr>window_size = 1, alpha = 1 / 2, z_thresh = 3,
      data_window = \<lparr>maxlen = 1, items = []\<rparr>, ewma_mean = 0, ewma_var = 0\<rparr> (10 ^ 200) =
     (\<lparr>window_size = 1, alpha = 1 / 2, z_thresh = 3,
       data_window = \<lparr>maxlen = 1, items = [10 ^ 200]\<rparr>,
       ewma_mean = 5 * 10 ^ 199, ewma_var = 0\<rparr>, Inl OverflowError)"
    by (simp add: detect_anomaly_checked_def update_ewma_checked_def Let_def append_dq_def
        len_def m p del: power_numeral)
qed

text \<open>
  C7, amended. Construction raises exactly when \<open>window_size\<close> is outside
  \<open>0 .. 2\<^sup>6\<^sup>3 - 1\<close>: the deque's \<^verbatim>\<open>ValueError\<close> for a negative size within the range of
  a C \<^verbatim>\<open>ssize_t\<close>, its \<^verbatim>\<open>OverflowError\<close> beyond that range. It never raises for
  \<open>alpha\<close> or \<open>z_thresh\<close>: every other configuration yields a detector that stores
  the three parameters as given, with an empty window and a zero EWMA state. During
  streaming, \<open>detect_anomaly\<close> raises nothing but \<^verbatim>\<open>OverflowError\<close>, and that only in
  a call past the warm-up test, on a non-empty window, when the deviation of the value
  from the mean just stored is finite and its square is beyond the range of a double;
  the value has then been appended and the mean stored. Every other call returns the
  state and the flag of \<open>detect_anomaly\<close>.
\<close>

theorem construction_and_streaming_errors:
  "((\<exists>d. init ws a z = Inr d) = (0 \<le> ws \<and> ws < 2 ^ 63)) \<and>
   ((init ws a z = Inl ValueError) = (- (2 ^ 63) \<le> ws \<and> ws < 0)) \<and>
   ((init ws a z = Inl OverflowError) = (ws < - (2 ^ 63) \<or> 2 ^ 63 \<le> ws)) \<and>
   init ws a z =
     (if ws < - (2 ^ 63) \<or> 2 ^ 63 \<le> ws then Inl OverflowError
      else if ws < 0 then Inl ValueError
      else Inr \<lparr>window_size = ws, alpha = a, z_thresh = z,
                data_window = \<lparr>maxlen = nat ws, items = []\<rparr>,
                ewma_mean = 0, ewma_var = 0\<rparr>) \<and>
   detect_anomaly_checked d v =
     (let d1 = d\<lparr>data_window := append_dq (data_window d) v\<rparr>;
          m' = alpha d * v + (1 - alpha d) * ewma_mean d
      in if \<not> len (data_window d1) < window_size d \<and> len (data_window d1) \<noteq> 0 \<and>
            \<bar>v - m'\<bar> < dbl_inf \<and> dbl_inf \<le> (v - m') ^ 2
         then (d1\<lparr>ewma_mean := m'\<rparr>, Inl OverflowError)
         else (fst (detect_anomaly d v), Inr (snd (detect_anomaly d v))))"
proof (intro conjI)
  show i: "init ws a z =
     (if ws < - (2 ^ 63) \<or> 2 ^ 63 \<le> ws then Inl OverflowError
      else if ws < 0 then Inl ValueError
      else Inr \<lparr>window_size = ws, alpha = a, z_thresh = z,
                data_window = \<lparr>maxlen = nat ws, items = []\<rparr>,
                ewma_mean = 0, ewma_var = 0\<rparr>)"
    by (simp add: init_def new_deque_def)
  show "(\<exists>d. init ws a z = Inr d) = (0 \<le> ws \<and> ws < 2 ^ 63)"
    by (simp only: i) auto
  show "(init ws a z = Inl ValueError) = (- (2 ^ 63) \<le> ws \<and> ws < 0)"
    by (simp only: i) auto
  show "(init ws a z = Inl OverflowError) = (ws < - (2 ^ 63) \<or> 2 ^ 63 \<le> ws)"
    by (simp only: i) auto
  show "detect_anomaly_checked d v =
     (let d1 = d\<lparr>data_window := append_dq (data_window d) v\<rparr>;
          m' = alpha d * v + (1 - alpha d) * ewma_mean d
      in if \<not> len (data_window d1) < window_size d \<and> len (data_window d1) \<noteq> 0 \<and>
            \<bar>v - m'\<bar> < dbl_inf \<and> dbl_inf \<le> (v - m') ^ 2
         then (d1\<lparr>ewma_mean := m'\<rparr>, Inl OverflowError)
         else (fst (detect_anomaly d v), Inr (snd (detect_anomaly d v))))"
    by (simp add: detect_anomaly_checked_def detect_anomaly_def update_ewma_checked_def
        update_ewma_def py_pow2_def Let_def)
qed

theorem construction_and_streaming_errors_witness:
  "init 2 (1 / 2) 3 =
     Inr \<lparr>window_size = 2, alpha = 1 / 2, z_thresh = 3,
          data_window = \<lparr>maxlen = 2, items = []\<rparr>, ewma_mean = 0, ewma_var = 0\<rparr> \<and>
   init (- 1) (1 / 2) 3 = Inl ValueError \<and>
   init (2 ^ 63) (1 / 2) 3 = Inl OverflowError \<and>
   detect_anomaly_checked
     \<lparr>window_size = 2, alpha = 1 / 2, z_thresh = 3,
      data_window = \<lparr>maxlen = 2, items = [4]\<rparr>, ewma_mean = 0, ewma_var = 0\<rparr> 6 =
     (\<lparr>window_size = 2, alpha = 1 / 2, z_thresh = 3,
       data_window = \<lparr>maxlen = 2, items = [4, 6]\<rparr>, ewma_mean = 3, ewma_var = 9 / 2\<rparr>,
      Inr False)"
proof -
  let ?d = "\<lparr>window_size = 2, alpha = 1 / 2, z_thresh = 3,
      data_window = \<lparr>maxlen = 2, items = [4]\<rparr>, ewma_mean = 0, ewma_var = 0\<rparr>"
  have b: "\<not> dbl_inf \<le> 9"
    by (simp add: dbl_inf_def)
  have r: "detect_anomaly ?d 6 =
     (\<lparr>window_size = 2, alpha = 1 / 2, z_thresh = 3,
       data_window = \<lparr>maxlen = 2, items = [4, 6]\<rparr>, ewma_mean = 3, ewma_var = 9 / 2\<rparr>,
      False)"
    by (simp add: detect_anomaly_def Let_def append_dq_def len_def np_mean_def np_std_def
        z_score_of_def update_ewma_def power2_eq_square)
  show ?thesis
    using construction_and_streaming_errors [of 2 "1 / 2" 3 ?d 6]
      construction_and_streaming_errors [of "- 1" "1 / 2" 3 ?d 6]
      construction_and_streaming_errors [of "2 ^ 63" "1 / 2" 3 ?d 6]
    by (simp add: r b Let_def append_dq_def len_def)
qed

subsection \<open>C8: the decision does not read the EWMA state\<close>



subsection \<open>C9: the scenario 10, 10, 10, 10, 50\<close>


subsection \<open>C10: classification never reaches the cold-start branch\<close>

text \<open>
  C10. For a freshly constructed detector of window size \<open>N \<ge> 1\<close> and any calls
  \<open>vs\<close> made so far, the window that \<open>detect_anomaly\<close> hands to \<open>update_ewma\<close> is
  never empty: when the call gets past the warm-up test the window holds \<open>N\<close>
  elements, and the update is the recurrence, not the cold start. The first update of
  a run, made by call number \<open>N\<close>, therefore works on the constructor's zeros and
  leaves \<open>ewma_mean = alpha * value\<close> (and \<open>ewma_var = alpha * (value - alpha * value)\<^sup>2\<close>),
  not \<open>ewma_mean = value\<close>.
\<close>

theorem cold_start_unreachable:
  assumes "init N a z = Inr d0" and "1 \<le> N"
  shows "(let d = feed d0 vs; d1 = d\<lparr>data_window := append_dq (data_window d) v\<rparr>
          in len (data_window d1) \<noteq> 0 \<and>
             (\<not> len (data_window d1) < window_size d1 \<longrightarrow>
                len (data_window d1) = N \<and>
                fst (detect_anomaly d v) =
                  d1\<lparr>ewma_mean := alpha d * v + (1 - alpha d) * ewma_mean d,
                     ewma_var := alpha d * (v - (alpha d * v + (1 - alpha d) * ewma_mean d)) ^ 2
                                 + (1 - alpha d) * ewma_var d\<rparr>)) \<and>
         (int (length vs) = N - 1 \<longrightarrow>
            ewma_mean (feed d0 (vs @ [v])) = a * v \<and>
            ewma_var (feed d0 (vs @ [v])) = a * (v - a * v) ^ 2)"
proof -
  let ?d = "feed d0 vs"
  let ?q = "append_dq (data_window ?d) v"
  have "items ?q = items (data_window (feed d0 (vs @ [v])))"
    by (simp add: feed_snoc)
  then have it: "items ?q = drop (length (vs @ [v]) - nat N) (vs @ [v])"
    by (simp only: feed_init_items [OF assms(1)])
  have ln: "len ?q = min (int (length vs) + 1) N"
    using assms(2) by (simp add: len_def it)
  then have ne: "len ?q \<noteq> 0"
    using assms(2) by simp
  have act: "\<not> len ?q < N \<Longrightarrow> fst (detect_anomaly ?d v) =
      (?d\<lparr>data_window := ?q\<rparr>)\<lparr>ewma_mean := alpha ?d * v + (1 - alpha ?d) * ewma_mean ?d,
         ewma_var := alpha ?d * (v - (alpha ?d * v + (1 - alpha ?d) * ewma_mean ?d)) ^ 2
                     + (1 - alpha ?d) * ewma_var ?d\<rparr>"
    using ne by (simp add: detect_anomaly_def Let_def update_ewma_def init_fields [OF assms(1)])
  have first: "ewma_mean (feed d0 (vs @ [v])) = a * v \<and>
            ewma_var (feed d0 (vs @ [v])) = a * (v - a * v) ^ 2"
    if l: "int (length vs) = N - 1"
  proof -
    have "int (length vs) < N"
      using l by simp
    note w = feed_warming [OF assms(1) this]
    have "\<not> len ?q < N"
      using l ln by simp
    from act [OF this] show ?thesis
      by (simp add: feed_snoc) (simp add: w init_fields [OF assms(1)])
  qed
  show ?thesis
    using ne ln act first by (simp add: Let_def init_fields [OF assms(1)])
qed

theorem cold_start_unreachable_witness:
  "init 2 (1 / 2) 3 =
     Inr \<lparr>window_size = 2, alpha = 1 / 2, z_thresh = 3,
          data_window = \<lparr>maxlen = 2, items = []\<rparr>, ewma_mean = 0, ewma_var = 0\<rparr> \<and>
   (1::int) \<le> 2 \<and> int (length [4 :: real]) = 2 - 1 \<and>
   \<not> len (append_dq (data_window
        (feed \<lparr>window_size = 2, alpha = 1 / 2, z_thresh = 3,
               data_window = \<lparr>maxlen = 2, items = []\<rparr>, ewma_mean = 0, ewma_var = 0\<rparr>
              [4])) 6) < 2 \<and>
   ewma_mean (feed \<lparr>window_size = 2, alpha = 1 / 2, z_thresh = 3,
                    data_window = \<lparr>maxlen = 2, items = []\<rparr>, ewma_mean = 0, ewma_var = 0\<rparr>
                   ([4] @ [6])) = 3 \<and>
   ewma_var (feed \<lparr>window_size = 2, alpha = 1 / 2, z_thresh = 3,
                   data_window = \<lparr>maxlen = 2, items = []\<rparr>, ewma_mean = 0, ewma_var = 0\<rparr>
                  ([4] @ [6])) = 9 / 2"
proof -
  let ?e = "\<lparr>window_size = 2, alpha = 1 / 2, z_thresh = 3,
      data_window = \<lparr>maxlen = 2, items = []\<rparr>, ewma_mean = 0, ewma_var = 0\<rparr>"
  have h: "init 2 (1 / 2) 3 = Inr ?e"
    by (simp add: init_def new_deque_def)
  have n: "(1::int) \<le> 2"
    by simp
  have a: "\<not> len (append_dq (data_window (feed ?e [4])) 6) < 2"
    by (simp add: detect_anomaly_def Let_def append_dq_def len_def)
  show ?thesis
    using h a cold_start_unreachable [OF h n, of "[4]" 6]
    by (simp add: power2_eq_square)
qed

end
